theory Spec2Isabelle
  imports Main "HOL-Library.AList"
begin

section \<open>Python values, dictionaries and exceptions\<close>

text \<open>
  The values that travel through the authentication code: \<open>None\<close>, strings, integers
  and \<open>datetime\<close> objects. A point in time is a number of whole seconds since the epoch
  (the token library truncates every \<open>datetime\<close> to whole seconds before it signs or
  compares it), and a \<open>timedelta\<close> is a number of seconds. Times are unbounded: the
  \<open>OverflowError\<close> of date arithmetic beyond the year 9999 has no counterpart here.
\<close>

datatype pyval = PyNone | PyStr string | PyInt int | PyDatetime int

text \<open>
  A \<open>dict\<close> with string keys, in insertion order. \<open>d.get(k)\<close> answers \<open>None\<close> for a
  missing key; \<open>d.update({k: v})\<close> overwrites the entry of \<open>k\<close> in place or appends it.
\<close>

type_synonym pydict = "(string \<times> pyval) list"

definition dict_get :: "pydict \<Rightarrow> string \<Rightarrow> pyval" where
  "dict_get d k = (case map_of d k of None \<Rightarrow> PyNone | Some v \<Rightarrow> v)"

definition dict_update :: "pydict \<Rightarrow> string \<Rightarrow> pyval \<Rightarrow> pydict" where
  "dict_update d k v = AList.update k v d"

text \<open>
  Every \<open>raise\<close> of the source is a value of \<open>exn\<close>. \<open>ExpiredSignatureError\<close> and
  \<open>JWTClaimsError\<close> are subclasses of \<open>JWTError\<close>; the database errors of SQLAlchemy
  (connection loss, integrity violation, several rows where one was asked for) are all
  subclasses of \<open>SQLAlchemyError\<close>, which is the only class the source catches.
\<close>

datatype exn =
    HTTPException (status_code: nat) (detail: string) (headers: "(string \<times> string) list")
  | JWTError
  | ExpiredSignatureError
  | JWTClaimsError
  | JWSError
  | TypeError
  | SQLAlchemyError
  | UnknownHashError
  | AttributeError
  | KeyError

fun is_JWTError :: "exn \<Rightarrow> bool" where
  "is_JWTError JWTError = True"
| "is_JWTError ExpiredSignatureError = True"
| "is_JWTError JWTClaimsError = True"
| "is_JWTError _ = False"

fun is_HTTPException :: "exn \<Rightarrow> bool" where
  "is_HTTPException (HTTPException _ _ _) = True"
| "is_HTTPException _ = False"

fun is_SQLAlchemyError :: "exn \<Rightarrow> bool" where
  "is_SQLAlchemyError SQLAlchemyError = True"
| "is_SQLAlchemyError _ = False"

definition HTTP_400_BAD_REQUEST :: nat where
  "HTTP_400_BAD_REQUEST = 400"

definition HTTP_401_UNAUTHORIZED :: nat where
  "HTTP_401_UNAUTHORIZED = 401"

definition HTTP_500_INTERNAL_SERVER_ERROR :: nat where
  "HTTP_500_INTERNAL_SERVER_ERROR = 500"

section \<open>The token library (python-jose), as the source uses it\<close>

text \<open>
  A compact token is a header naming the algorithm, a JSON object of claims and a
  signature over both; any other string is malformed. The keyed MAC is symbolic: the
  signature made with algorithm \<open>a\<close> and key \<open>k\<close> over claims \<open>c\<close> is the term
  \<open>HMAC a k c\<close>, so two signatures agree only when algorithm, key and claims agree.
\<close>

datatype jws_signature = HMAC string string pydict

datatype jwt_string = Malformed string | Compact string pydict jws_signature

definition HMAC_ALGORITHMS :: "string list" where
  "HMAC_ALGORITHMS = [''HS256'', ''HS384'', ''HS512'']"

text \<open>
  \<open>jwt.encode\<close> first rewrites, in the dictionary it was given, a \<open>datetime\<close> under one
  of the keys \<open>exp\<close>, \<open>iat\<close>, \<open>nbf\<close> into its integer timestamp. It then signs. Signing
  fails with \<open>JWSError\<close> for an algorithm that cannot be used with a passphrase key, and
  with \<open>TypeError\<close> when a value is left that JSON cannot carry (a \<open>datetime\<close> under
  any other key). The function answers the rewritten dictionary and the outcome.
\<close>

definition convert_time_claim :: "string \<Rightarrow> pydict \<Rightarrow> pydict" where
  "convert_time_claim time_claim claims =
     (case dict_get claims time_claim of
        PyDatetime t \<Rightarrow> dict_update claims time_claim (PyInt t)
      | _ \<Rightarrow> claims)"

text \<open>What the rewriting makes of a value: a \<open>datetime\<close> becomes its timestamp.\<close>

definition intdate :: "pyval \<Rightarrow> pyval" where
  "intdate v = (case v of PyDatetime t \<Rightarrow> PyInt t | _ \<Rightarrow> v)"

fun is_datetime :: "pyval \<Rightarrow> bool" where
  "is_datetime (PyDatetime _) = True"
| "is_datetime _ = False"

definition jwt_encode :: "pydict \<Rightarrow> string \<Rightarrow> string \<Rightarrow> pydict \<times> (exn + jwt_string)" where
  "jwt_encode claims key algorithm =
     (let claims' = fold convert_time_claim [''exp'', ''iat'', ''nbf''] claims
      in if algorithm \<notin> set HMAC_ALGORITHMS then (claims', Inl JWSError)
         else if list_ex (\<lambda>kv. is_datetime (snd kv)) claims' then (claims', Inl TypeError)
         else (claims', Inr (Compact algorithm claims' (HMAC algorithm key claims'))))"

text \<open>
  \<open>jwt.decode\<close> with the library's default options: the token must be well formed, its
  algorithm among the allowed ones and its signature the MAC of its content under the
  key; then the registered claims are validated against the clock. An \<open>exp\<close> earlier
  than the current second is \<open>ExpiredSignatureError\<close>, an \<open>nbf\<close> later than it and a
  \<open>sub\<close> that is not a string are \<open>JWTClaimsError\<close>. The library's further checks
  (\<open>iat\<close>, \<open>aud\<close>, \<open>iss\<close>, \<open>jti\<close>, \<open>at_hash\<close>) reject more tokens, each with a
  \<open>JWTError\<close>; they are left out, and the model reads only integer time claims.
\<close>

definition validate_exp :: "pydict \<Rightarrow> int \<Rightarrow> exn option" where
  "validate_exp claims now =
     (case map_of claims ''exp'' of
        None \<Rightarrow> None
      | Some (PyInt e) \<Rightarrow> (if e < now then Some ExpiredSignatureError else None)
      | Some _ \<Rightarrow> Some JWTClaimsError)"

definition validate_nbf :: "pydict \<Rightarrow> int \<Rightarrow> exn option" where
  "validate_nbf claims now =
     (case map_of claims ''nbf'' of
        None \<Rightarrow> None
      | Some (PyInt n) \<Rightarrow> (if now < n then Some JWTClaimsError else None)
      | Some _ \<Rightarrow> Some JWTClaimsError)"

definition validate_sub :: "pydict \<Rightarrow> exn option" where
  "validate_sub claims =
     (case map_of claims ''sub'' of
        None \<Rightarrow> None
      | Some (PyStr _) \<Rightarrow> None
      | Some _ \<Rightarrow> Some JWTClaimsError)"

definition validate_claims :: "pydict \<Rightarrow> int \<Rightarrow> exn option" where
  "validate_claims claims now =
     (case validate_nbf claims now of
        Some e \<Rightarrow> Some e
      | None \<Rightarrow>
          (case validate_exp claims now of
             Some e \<Rightarrow> Some e
           | None \<Rightarrow> validate_sub claims))"

definition jwt_decode :: "jwt_string \<Rightarrow> string \<Rightarrow> string list \<Rightarrow> int \<Rightarrow> exn + pydict" where
  "jwt_decode token key algorithms now =
     (case token of
        Malformed _ \<Rightarrow> Inl JWTError
      | Compact alg payload signature \<Rightarrow>
          if alg \<notin> set algorithms then Inl JWTError
          else if signature \<noteq> HMAC alg key payload then Inl JWTError
          else (case validate_claims payload now of
                  Some e \<Rightarrow> Inl e
                | None \<Rightarrow> Inr payload))"

section \<open>auth_utils.py\<close>

record AuthSettings =
  SECRET_KEY :: string
  ALGORITHM :: string
  ACCESS_TOKEN_EXPIRE_MINUTES :: int

definition auth_settings_default :: AuthSettings where
  "auth_settings_default =
     \<lparr> SECRET_KEY = ''please-change-this-to-a-long-random-string-in-next-sprint'',
       ALGORITHM = ''HS256'',
       ACCESS_TOKEN_EXPIRE_MINUTES = 10080 \<rparr>"

text \<open>\<open>timedelta(minutes=m)\<close> in seconds, and the truth value Python gives a \<open>timedelta\<close>.\<close>

definition timedelta_minutes :: "int \<Rightarrow> int" where
  "timedelta_minutes m = 60 * m"

definition timedelta_bool :: "int \<Rightarrow> bool" where
  "timedelta_bool d = (d \<noteq> 0)"

subsection \<open>create_access_token\<close>

text \<open>
  The argument \<open>data\<close> is a reference to a dictionary the caller owns, so the function
  runs on an object store: a list of dictionaries, a reference being an index into it
  (a reference a caller holds is below the length of the store).
  \<open>data.copy()\<close> allocates a new object; \<open>to_encode.update\<close> and the rewriting done by
  \<open>jwt.encode\<close> change the object \<open>to_encode\<close> refers to. \<open>expires_delta\<close> is
  \<open>None\<close> or a \<open>timedelta\<close>, and \<open>if expires_delta:\<close> asks for its truth value.
  The function answers the store it leaves behind and the token or the exception raised.
\<close>

type_synonym store = "pydict list"

definition create_access_token ::
    "AuthSettings \<Rightarrow> int \<Rightarrow> store \<Rightarrow> nat \<Rightarrow> int option \<Rightarrow> store \<times> (exn + jwt_string)" where
  "create_access_token auth_settings utcnow h data expires_delta =
     (let to_encode = length h;
          h1 = h @ [h ! data];
          expire =
            (case expires_delta of
               Some d \<Rightarrow>
                 if timedelta_bool d then utcnow + d
                 else utcnow + timedelta_minutes (ACCESS_TOKEN_EXPIRE_MINUTES auth_settings)
             | None \<Rightarrow> utcnow + timedelta_minutes (ACCESS_TOKEN_EXPIRE_MINUTES auth_settings));
          h2 = h1[to_encode := dict_update (h1 ! to_encode) ''exp'' (PyDatetime expire)];
          (claims', outcome) =
            jwt_encode (h2 ! to_encode) (SECRET_KEY auth_settings) (ALGORITHM auth_settings);
          h3 = h2[to_encode := claims']
      in case outcome of
           Inr encoded_jwt \<Rightarrow> (h3, Inr encoded_jwt)
         | Inl e \<Rightarrow>
             (h3, Inl (HTTPException HTTP_500_INTERNAL_SERVER_ERROR
                         ''Server security mechanism failed. Cannot issue token.'' [])))"

text \<open>
  The callers in the routers pass a dictionary literal, \<open>create_access_token(data={...})\<close>:
  a fresh object nobody else refers to, so only the outcome is of interest.
\<close>

definition create_access_token_literal ::
    "AuthSettings \<Rightarrow> int \<Rightarrow> pydict \<Rightarrow> int option \<Rightarrow> exn + jwt_string" where
  "create_access_token_literal auth_settings utcnow d expires_delta =
     snd (create_access_token auth_settings utcnow [d] 0 expires_delta)"

subsection \<open>get_current_user (token validation only)\<close>

definition credentials_exception_utils :: exn where
  "credentials_exception_utils =
     HTTPException HTTP_401_UNAUTHORIZED
       ''Authentication failed. Token is invalid or expired.''
       [(''WWW-Authenticate'', ''Bearer'')]"

text \<open>
  The inner \<open>case\<close> is the body of the \<open>try\<close>; the outer one is the two handlers
  (\<open>except JWTError\<close>, then \<open>except Exception\<close>, which also catches the
  \<open>HTTPException\<close> raised in the body for a missing \<open>sub\<close>) and the code after them.
\<close>

definition auth_utils_get_current_user :: "AuthSettings \<Rightarrow> int \<Rightarrow> jwt_string \<Rightarrow> exn + pydict" where
  "auth_utils_get_current_user auth_settings utcnow token =
     (case (case jwt_decode token (SECRET_KEY auth_settings) [ALGORITHM auth_settings] utcnow of
              Inl e \<Rightarrow> Inl e
            | Inr payload \<Rightarrow>
                (let email = dict_get payload ''sub''
                 in if email = PyNone then Inl credentials_exception_utils else Inr email)) of
        Inl e \<Rightarrow>
          (if is_JWTError e then Inl credentials_exception_utils
           else Inl credentials_exception_utils)
      | Inr email \<Rightarrow> Inr [(''email'', email)])"

subsection \<open>Password utilities\<close>

text \<open>
  The Argon2 context of passlib, symbolically: the hash string made of a password under
  a salt is the term \<open>Argon2 salt password\<close>; any other text in the hash column is a
  string the context cannot identify, on which \<open>verify\<close> raises. The salt is drawn by
  the library at each call of \<open>hash\<close>, so it is an input of the model.
\<close>

datatype hash_string = Argon2 string string | Unidentified string

definition pwd_context_hash :: "string \<Rightarrow> string \<Rightarrow> hash_string" where
  "pwd_context_hash salt secret = Argon2 salt secret"

definition pwd_context_verify :: "string \<Rightarrow> hash_string \<Rightarrow> exn + bool" where
  "pwd_context_verify secret h =
     (case h of
        Argon2 salt secret' \<Rightarrow> Inr (secret = secret')
      | Unidentified _ \<Rightarrow> Inl UnknownHashError)"

definition verify_password :: "string \<Rightarrow> hash_string \<Rightarrow> exn + bool" where
  "verify_password plain_password hashed_password =
     pwd_context_verify plain_password hashed_password"

definition get_password_hash :: "string \<Rightarrow> string \<Rightarrow> hash_string" where
  "get_password_hash salt password = pwd_context_hash salt password"

section \<open>models.py, schemas.py and the database session\<close>

text \<open>
  A row of the table \<open>users\<close>. The columns are \<open>id\<close>, \<open>email\<close> and \<open>password_hash\<close>;
  the first two fields carry a prefix because \<open>id\<close> is a constant of HOL and \<open>email\<close>
  is also a field of the request schema.
\<close>

record User =
  user_id :: int
  user_email :: string
  password_hash :: hash_string

record UserCreate =
  email :: string
  password :: string

record Token =
  access_token :: jwt_string
  token_type :: string

text \<open>
  The session a request works on: the committed rows of \<open>users\<close>, the objects handed to
  \<open>db.add\<close> and not yet written (email and hash; the key is assigned at the insert),
  and what the store does to this request: whether a query, the commit or the refresh
  meets an unavailable database.
\<close>

record session =
  rows :: "User list"
  pending :: "(string \<times> hash_string) list"
  execute_fails :: bool
  commit_fails :: bool
  refresh_fails :: bool

text \<open>
  \<open>select(User).where(User.email == e)\<close>, executed, then \<open>scalar_one_or_none()\<close>:
  no row is \<open>None\<close>, one row is that row, several rows raise \<open>MultipleResultsFound\<close>.
\<close>

definition select_user_by_email :: "session \<Rightarrow> string \<Rightarrow> exn + User option" where
  "select_user_by_email db e =
     (if execute_fails db then Inl SQLAlchemyError
      else (case filter (\<lambda>u. user_email u = e) (rows db) of
              [] \<Rightarrow> Inr None
            | [u] \<Rightarrow> Inr (Some u)
            | _ \<Rightarrow> Inl SQLAlchemyError))"

definition add :: "session \<Rightarrow> string \<times> hash_string \<Rightarrow> session" where
  "add db new_user = db\<lparr>pending := pending db @ [new_user]\<rparr>"

text \<open>
  The insert of the pending objects: each gets the next key of the sequence, and the
  unique index on \<open>email\<close> refuses an email that a row already has.
\<close>

definition next_id :: "User list \<Rightarrow> int" where
  "next_id us = fold max (map user_id us) 0 + 1"

fun flush :: "(string \<times> hash_string) list \<Rightarrow> User list \<Rightarrow> User list option" where
  "flush [] us = Some us"
| "flush (p # ps) us =
     (if fst p \<in> set (map user_email us) then None
      else flush ps
             (us @ [\<lparr> user_id = next_id us, user_email = fst p, password_hash = snd p \<rparr>]))"

text \<open>
  \<open>commit\<close> writes the pending objects in one transaction or raises and writes nothing;
  after a failure the objects stay in the session until \<open>rollback\<close> discards them.
\<close>

definition commit :: "session \<Rightarrow> exn option \<times> session" where
  "commit db =
     (if commit_fails db then (Some SQLAlchemyError, db)
      else (case flush (pending db) (rows db) of
              None \<Rightarrow> (Some SQLAlchemyError, db)
            | Some us \<Rightarrow> (None, db\<lparr>rows := us, pending := []\<rparr>)))"

definition refresh :: "session \<Rightarrow> exn option" where
  "refresh db = (if refresh_fails db then Some SQLAlchemyError else None)"

definition rollback :: "session \<Rightarrow> session" where
  "rollback db = db\<lparr>pending := []\<rparr>"

section \<open>routers/auth.py\<close>

text \<open>An \<open>HTTPException\<close> raised without \<open>headers\<close> carries the empty list.\<close>

subsection \<open>get_current_user (token validation and user lookup)\<close>

definition credentials_exception :: exn where
  "credentials_exception =
     HTTPException HTTP_401_UNAUTHORIZED ''Could not validate credentials''
       [(''WWW-Authenticate'', ''Bearer'')]"

text \<open>
  First \<open>try\<close>: its body, then \<open>except HTTPException: raise\<close> and \<open>except Exception\<close>.
  Second \<open>try\<close>: the query, with \<open>except SQLAlchemyError\<close>. The query compares the
  column \<open>email\<close> with the value taken from the token; a value that is not a string is
  refused by the database driver, an error SQLAlchemy wraps.
\<close>

definition get_current_user :: "AuthSettings \<Rightarrow> int \<Rightarrow> jwt_string \<Rightarrow> session \<Rightarrow> exn + pydict" where
  "get_current_user auth_settings utcnow token db =
     (case (case auth_utils_get_current_user auth_settings utcnow token of
              Inl e \<Rightarrow> Inl e
            | Inr token_data_dict \<Rightarrow>
                (let validated_email = dict_get token_data_dict ''email''
                 in if validated_email = PyNone then Inl credentials_exception
                    else Inr validated_email)) of
        Inl e \<Rightarrow> (if is_HTTPException e then Inl e else Inl credentials_exception)
      | Inr validated_email \<Rightarrow>
          (case (case validated_email of
                   PyStr e \<Rightarrow> select_user_by_email db e
                 | _ \<Rightarrow> Inl SQLAlchemyError) of
             Inl e \<Rightarrow>
               (if is_SQLAlchemyError e
                then Inl (HTTPException HTTP_500_INTERNAL_SERVER_ERROR
                            ''Database error during user lookup for authenticated request.'' [])
                else Inl e)
           | Inr None \<Rightarrow> Inl credentials_exception
           | Inr (Some user) \<Rightarrow>
               Inr [(''email'', PyStr (user_email user)), (''id'', PyInt (user_id user))]))"

subsection \<open>register_user\<close>

text \<open>
  The function answers its response or exception, and the session as it leaves it.
  \<open>salt\<close> is the randomness \<open>get_password_hash\<close> draws. The third \<open>try\<close> runs
  \<open>db.add\<close>, \<open>db.commit\<close> and \<open>db.refresh\<close>; its handler rolls back.
\<close>

definition register_user ::
    "AuthSettings \<Rightarrow> int \<Rightarrow> string \<Rightarrow> UserCreate \<Rightarrow> session \<Rightarrow> (exn + Token) \<times> session" where
  "register_user auth_settings utcnow salt user_data db =
     (case select_user_by_email db (email user_data) of
        Inl e \<Rightarrow>
          (if is_SQLAlchemyError e
           then Inl (HTTPException HTTP_500_INTERNAL_SERVER_ERROR
                       ''Database error during user existence check. See backend logs.'' [])
           else Inl e, db)
      | Inr (Some existing_user) \<Rightarrow>
          (Inl (HTTPException HTTP_400_BAD_REQUEST ''Email already registered'' []), db)
      | Inr None \<Rightarrow>
          (let hashed_password = get_password_hash salt (password user_data);
               new_user = (email user_data, hashed_password);
               db1 = add db new_user;
               (raised, db2) =
                 (case commit db1 of
                    (Some e, db') \<Rightarrow> (Some e, db')
                  | (None, db') \<Rightarrow> (refresh db', db'))
           in case raised of
                Some e \<Rightarrow>
                  (Inl (HTTPException HTTP_500_INTERNAL_SERVER_ERROR
                          ''Registration failed due to a critical database error.'' []),
                   rollback db2)
              | None \<Rightarrow>
                  (case create_access_token_literal auth_settings utcnow
                          [(''sub'', PyStr (fst new_user))] None of
                     Inl e \<Rightarrow> (Inl e, db2)
                   | Inr encoded_jwt \<Rightarrow>
                       (Inr \<lparr> access_token = encoded_jwt, token_type = ''bearer'' \<rparr>, db2))))"

subsection \<open>login_for_access_token\<close>

definition login_for_access_token ::
    "AuthSettings \<Rightarrow> int \<Rightarrow> UserCreate \<Rightarrow> session \<Rightarrow> exn + Token" where
  "login_for_access_token auth_settings utcnow user_data db =
     (case select_user_by_email db (email user_data) of
        Inl e \<Rightarrow>
          (if is_SQLAlchemyError e
           then Inl (HTTPException HTTP_500_INTERNAL_SERVER_ERROR
                       ''Database error during user lookup. See backend logs.'' [])
           else Inl e)
      | Inr None \<Rightarrow>
          Inl (HTTPException HTTP_401_UNAUTHORIZED ''Incorrect email or password''
                 [(''WWW-Authenticate'', ''Bearer'')])
      | Inr (Some user) \<Rightarrow>
          (case verify_password (password user_data) (password_hash user) of
             Inl e \<Rightarrow> Inl e
           | Inr verified \<Rightarrow>
               if \<not> verified
               then Inl (HTTPException HTTP_401_UNAUTHORIZED ''Incorrect email or password''
                           [(''WWW-Authenticate'', ''Bearer'')])
               else (case create_access_token_literal auth_settings utcnow
                            [(''sub'', PyStr (user_email user))] None of
                       Inl e \<Rightarrow> Inl e
                     | Inr encoded_jwt \<Rightarrow>
                         Inr \<lparr> access_token = encoded_jwt, token_type = ''bearer'' \<rparr>)))"

subsection \<open>read_users_me\<close>

text \<open>
  What a dependency hands to an endpoint is an object: the dictionary that
  \<open>get_current_user\<close> returns, or (as the annotation in \<open>files.py\<close> has it) an instance
  of \<open>models.User\<close>. A dictionary gives its entries by subscription,
  \<open>current_user['email']\<close>, an instance gives its columns as attributes,
  \<open>current_user.email\<close>; the other way round Python raises.
\<close>

datatype pyobj = DictObj pydict | UserObj User

definition subscript :: "pyobj \<Rightarrow> string \<Rightarrow> exn + pyval" where
  "subscript obj k =
     (case obj of
        DictObj d \<Rightarrow> (case map_of d k of None \<Rightarrow> Inl KeyError | Some v \<Rightarrow> Inr v)
      | UserObj _ \<Rightarrow> Inl TypeError)"

definition attr_id :: "pyobj \<Rightarrow> exn + int" where
  "attr_id obj = (case obj of DictObj _ \<Rightarrow> Inl AttributeError | UserObj u \<Rightarrow> Inr (user_id u))"

definition attr_email :: "pyobj \<Rightarrow> exn + string" where
  "attr_email obj =
     (case obj of DictObj _ \<Rightarrow> Inl AttributeError | UserObj u \<Rightarrow> Inr (user_email u))"

definition read_users_me :: "pyobj \<Rightarrow> exn + pyval" where
  "read_users_me current_user = subscript current_user ''email''"

section \<open>routers/files.py\<close>

definition UPLOAD_DIR :: string where
  "UPLOAD_DIR = ''user_uploads''"

text \<open>The two attributes of the uploaded file the endpoint reads; the client may omit either.\<close>

record UploadFile =
  filename :: "string option"
  content_type :: "string option"

text \<open>\<open>s.replace(old, new)\<close> for a pattern and a replacement of one character each.\<close>

definition str_replace :: "char \<Rightarrow> char \<Rightarrow> string \<Rightarrow> string" where
  "str_replace old new s = map (\<lambda>c. if c = old then new else c) s"

text \<open>\<open>str\<close> of an integer, and of an optional string inside an f-string.\<close>

fun str_nat :: "nat \<Rightarrow> string" where
  "str_nat n =
     (if n < 10 then [char_of (48 + n)]
      else str_nat (n div 10) @ [char_of (48 + n mod 10)])"

definition str_int :: "int \<Rightarrow> string" where
  "str_int i = (if i < 0 then CHR ''-'' # str_nat (nat (- i)) else str_nat (nat i))"

definition str_optional :: "string option \<Rightarrow> string" where
  "str_optional s = (case s of None \<Rightarrow> ''None'' | Some t \<Rightarrow> t)"

text \<open>
  \<open>p / s\<close> of pathlib, printed, for a right operand without a separator (a decimal
  number, and a file name after its separators were replaced): the operand becomes one
  more segment, except that an empty operand and \<open>.\<close> add none.
\<close>

definition path_div :: "string \<Rightarrow> string \<Rightarrow> string" where
  "path_div p s = (if s = [] \<or> s = ''.'' then p else p @ ''/'' @ s)"

text \<open>
  \<open>upload_file\<close>. The f-strings of the log calls read \<open>current_user.email\<close> and
  \<open>current_user.id\<close> where they stand, so each is a step that can raise. Creating the
  user's directory is taken to succeed; \<open>write_fails\<close> says whether reading the upload
  or writing the file raises inside the \<open>try\<close>.
\<close>

definition upload_file :: "UploadFile \<Rightarrow> pyobj \<Rightarrow> bool \<Rightarrow> exn + pydict" where
  "upload_file file current_user write_fails =
     (if content_type file \<notin> set (map Some
           [''application/pdf'', ''text/plain'',
            ''application/vnd.openxmlformats-officedocument.wordprocessingml.document''])
      then (case attr_email current_user of
              Inl e \<Rightarrow> Inl e
            | Inr _ \<Rightarrow>
                Inl (HTTPException HTTP_400_BAD_REQUEST
                       (''Unsupported file type: '' @ str_optional (content_type file)
                          @ ''. Only PDF, TXT, or DOCX are allowed.'') []))
      else (case attr_id current_user of
              Inl e \<Rightarrow> Inl e
            | Inr uid \<Rightarrow>
                (let user_dir = path_div UPLOAD_DIR (str_int uid)
                 in case filename file of
                      None \<Rightarrow> Inl AttributeError
                    | Some name \<Rightarrow>
                        (let safe_filename =
                               str_replace (CHR 0x5C) CHR ''_'' (str_replace CHR ''/'' CHR ''_'' name);
                             file_path = path_div user_dir safe_filename
                         in case attr_email current_user of
                              Inl e \<Rightarrow> Inl e
                            | Inr _ \<Rightarrow>
                                if write_fails
                                then Inl (HTTPException HTTP_500_INTERNAL_SERVER_ERROR
                                            ''Could not save file on the server.'' [])
                                else Inr [(''message'', PyStr ''File uploaded successfully''),
                                          (''filename'', PyStr safe_filename),
                                          (''path'', PyStr file_path),
                                          (''user_id'', PyInt uid)]))))"

text \<open>
  The framework resolves \<open>Depends(get_current_user)\<close> first and calls the endpoint
  with what the dependency returned, or answers the dependency's exception.
\<close>

definition upload_file_request ::
    "AuthSettings \<Rightarrow> int \<Rightarrow> jwt_string \<Rightarrow> session \<Rightarrow> UploadFile \<Rightarrow> bool \<Rightarrow> exn + pydict" where
  "upload_file_request auth_settings utcnow token db file write_fails =
     (case get_current_user auth_settings utcnow token db of
        Inl e \<Rightarrow> Inl e
      | Inr identity \<Rightarrow> upload_file file (DictObj identity) write_fails)"

section \<open>Evaluation and auxiliary facts\<close>

lemmas token_defs =
  auth_utils_get_current_user_def jwt_decode_def validate_claims_def validate_nbf_def
  validate_exp_def validate_sub_def dict_get_def dict_update_def auth_settings_default_def
  credentials_exception_utils_def create_access_token_def create_access_token_literal_def
  jwt_encode_def convert_time_claim_def HMAC_ALGORITHMS_def timedelta_minutes_def
  timedelta_bool_def

lemmas http_defs =
  HTTP_400_BAD_REQUEST_def HTTP_401_UNAUTHORIZED_def HTTP_500_INTERNAL_SERVER_ERROR_def

lemmas session_defs =
  select_user_by_email_def add_def commit_def refresh_def rollback_def next_id_def

lemma jwt_decode_sub:
  "jwt_decode token key algorithms now = Inr payload \<Longrightarrow>
   dict_get payload ''sub'' = PyNone \<or> (\<exists>s. dict_get payload ''sub'' = PyStr s)"
  by (auto simp: jwt_decode_def validate_claims_def validate_sub_def dict_get_def
           split: jwt_string.splits if_splits option.splits pyval.splits)

lemma auth_utils_get_current_user_Inl:
  "auth_utils_get_current_user S now tok = Inl e \<Longrightarrow> e = credentials_exception_utils"
  by (auto simp: auth_utils_get_current_user_def Let_def split: sum.splits if_splits)

lemma auth_utils_get_current_user_Inr:
  assumes "auth_utils_get_current_user S now tok = Inr d"
  shows "\<exists>s. d = [(''email'', PyStr s)]"
proof -
  from assms obtain payload where
    dec: "jwt_decode tok (SECRET_KEY S) [ALGORITHM S] now = Inr payload" and
    some: "dict_get payload ''sub'' \<noteq> PyNone" and
    d: "d = [(''email'', dict_get payload ''sub'')]"
    by (auto simp: auth_utils_get_current_user_def Let_def split: sum.splits if_splits)
  from jwt_decode_sub [OF dec] some d show ?thesis by auto
qed

lemma get_current_user_after_utils_failure:
  "auth_utils_get_current_user S now tok = Inl x \<Longrightarrow>
   get_current_user S now tok db = Inl credentials_exception_utils"
  by (frule auth_utils_get_current_user_Inl)
     (simp add: get_current_user_def credentials_exception_utils_def)

lemma get_current_user_after_utils_success:
  "auth_utils_get_current_user S now tok = Inr [(''email'', PyStr s)] \<Longrightarrow>
   get_current_user S now tok db =
     (case select_user_by_email db s of
        Inl e \<Rightarrow> Inl (HTTPException HTTP_500_INTERNAL_SERVER_ERROR
                       ''Database error during user lookup for authenticated request.'' [])
      | Inr None \<Rightarrow> Inl credentials_exception
      | Inr (Some user) \<Rightarrow>
          Inr [(''email'', PyStr (user_email user)), (''id'', PyInt (user_id user))])"
  by (auto simp: get_current_user_def dict_get_def select_user_by_email_def
           split: sum.splits option.splits list.splits)

text \<open>Under the unique index on \<open>email\<close> a lookup finds no row or exactly one.\<close>

lemma filter_unique_key:
  "distinct (map f xs) \<Longrightarrow>
   filter (\<lambda>u. f u = k) xs = [] \<or> (\<exists>u. filter (\<lambda>u. f u = k) xs = [u])"
proof (induction xs)
  case Nil
  then show ?case by simp
next
  case (Cons x xs)
  show ?case
  proof (cases "f x = k")
    case True
    from Cons.prems have "f x \<notin> f ` set xs" by simp
    then have "\<And>u. u \<in> set xs \<Longrightarrow> f u \<noteq> f x" by (metis imageI)
    with True have "filter (\<lambda>u. f u = k) xs = []"
      by (simp add: filter_empty_conv)
    with True show ?thesis by simp
  next
    case False
    with Cons show ?thesis by simp
  qed
qed

lemma select_user_by_email_unique:
  assumes "\<not> execute_fails db" and "distinct (map user_email (rows db))"
  shows "select_user_by_email db s = Inr None \<or>
         (\<exists>u. select_user_by_email db s = Inr (Some u))"
  using filter_unique_key [OF assms(2), of s] assms(1)
  by (auto simp: select_user_by_email_def)

lemma expired_token_rejected:
  assumes "map_of payload ''exp'' = Some (PyInt e)" and "e < now"
  shows "auth_utils_get_current_user S now (Compact alg payload signature)
           = Inl credentials_exception_utils"
  using assms
  by (auto simp: auth_utils_get_current_user_def jwt_decode_def validate_claims_def
        validate_exp_def Let_def split: sum.splits option.splits if_splits)

text \<open>The token the routers issue for an email, under the default settings.\<close>

lemma create_access_token_literal_sub:
  "create_access_token_literal auth_settings_default now [(''sub'', PyStr e)] ttl =
     Inr (Compact ''HS256''
            [(''sub'', PyStr e),
             (''exp'', PyInt (case ttl of
                                Some d \<Rightarrow> if d \<noteq> 0 then now + d else now + 604800
                              | None \<Rightarrow> now + 604800))]
            (HMAC ''HS256'' ''please-change-this-to-a-long-random-string-in-next-sprint''
               [(''sub'', PyStr e),
                (''exp'', PyInt (case ttl of
                                   Some d \<Rightarrow> if d \<noteq> 0 then now + d else now + 604800
                                 | None \<Rightarrow> now + 604800))]))"
  by (simp add: token_defs Let_def split: option.splits)

text \<open>
  With an instance of \<open>models.User\<close>, as its annotation has it, \<open>upload_file\<close> stores
  the file under the user's key and a name without separators.
\<close>

lemma str_replace_separators:
  "CHR ''/'' \<notin> set (str_replace (CHR 0x5C) CHR ''_'' (str_replace CHR ''/'' CHR ''_'' name))
   \<and> CHR 0x5C \<notin> set (str_replace (CHR 0x5C) CHR ''_'' (str_replace CHR ''/'' CHR ''_'' name))"
  by (induction name) (auto simp: str_replace_def)

lemma upload_file_of_User_object:
  "upload_file \<lparr> filename = Some name, content_type = Some ''text/plain'' \<rparr> (UserObj u) False =
     Inr [(''message'', PyStr ''File uploaded successfully''),
          (''filename'',
             PyStr (str_replace (CHR 0x5C) CHR ''_'' (str_replace CHR ''/'' CHR ''_'' name))),
          (''path'',
             PyStr (path_div (path_div UPLOAD_DIR (str_int (user_id u)))
                      (str_replace (CHR 0x5C) CHR ''_'' (str_replace CHR ''/'' CHR ''_'' name)))),
          (''user_id'', PyInt (user_id u))]"
  by (simp add: upload_file_def attr_id_def attr_email_def Let_def)


text \<open>Facts about \<open>register_user\<close> and the insert.\<close>

lemma register_user_existing:
  "select_user_by_email db (email c) = Inr (Some u) \<Longrightarrow>
   register_user S now salt c db =
     (Inl (HTTPException 400 ''Email already registered'' []), db)"
  by (simp add: register_user_def http_defs)

lemma flush_Some:
  "flush ps us = Some us' \<Longrightarrow>
   \<exists>new. us' = us @ new \<and> map user_email new = map fst ps \<and> map password_hash new = map snd ps
         \<and> distinct (map fst ps) \<and> set (map fst ps) \<inter> set (map user_email us) = {}"
proof (induction ps arbitrary: us)
  case Nil
  then show ?case by simp
next
  case (Cons p ps)
  let ?r = "\<lparr> user_id = next_id us, user_email = fst p, password_hash = snd p \<rparr>"
  from Cons.prems have fresh: "fst p \<notin> set (map user_email us)"
    and rest: "flush ps (us @ [?r]) = Some us'"
    by (auto split: if_splits)
  from Cons.IH [OF rest] obtain new where
    new: "us' = (us @ [?r]) @ new" "map user_email new = map fst ps"
         "map password_hash new = map snd ps" "distinct (map fst ps)"
         "set (map fst ps) \<inter> set (map user_email (us @ [?r])) = {}"
    by blast
  have "us' = us @ (?r # new)" using new(1) by simp
  moreover have "map user_email (?r # new) = map fst (p # ps)" using new(2) by simp
  moreover have "map password_hash (?r # new) = map snd (p # ps)" using new(3) by simp
  moreover have "distinct (map fst (p # ps))" using new(4,5) by auto
  moreover have "set (map fst (p # ps)) \<inter> set (map user_email us) = {}"
    using new(5) fresh by auto
  ultimately show ?case by blast
qed

text \<open>After a registration that succeeded, the lookup finds the row with the hash it stored.\<close>

lemma register_user_success:
  assumes "register_user S now salt c db = (Inr tok, db1)"
  shows "\<exists>u. select_user_by_email db1 (email c) = Inr (Some u)
             \<and> password_hash u = get_password_hash salt (password c)"
proof -
  let ?h = "get_password_hash salt (password c)"
  from assms have none: "select_user_by_email db (email c) = Inr None"
    by (auto simp: register_user_def split: sum.splits option.splits if_splits)
  then have ok: "\<not> execute_fails db"
    and empty: "filter (\<lambda>u. user_email u = email c) (rows db) = []"
    by (auto simp: select_user_by_email_def split: if_splits list.splits)
  from assms none obtain us where
    fl: "flush (pending db @ [(email c, ?h)]) (rows db) = Some us" and
    db1: "db1 = db\<lparr>pending := pending db @ [(email c, ?h)]\<rparr>\<lparr>rows := us, pending := []\<rparr>"
    by (auto simp: register_user_def add_def commit_def refresh_def rollback_def Let_def
             split: sum.splits option.splits if_splits prod.splits)
  from flush_Some [OF fl] obtain new where
    new: "us = rows db @ new" "map user_email new = map fst (pending db) @ [email c]"
         "map password_hash new = map snd (pending db) @ [?h]"
         "distinct (map fst (pending db) @ [email c])"
    by auto
  from new(2) obtain new1 r where split: "new = new1 @ [r]"
    by (cases new rule: rev_cases) auto
  with new(2,3) have r: "user_email r = email c" "password_hash r = ?h"
    and new1: "map user_email new1 = map fst (pending db)"
    by auto
  from new(4) have "email c \<notin> set (map fst (pending db))" by simp
  with new1 have "email c \<notin> set (map user_email new1)" by simp
  then have "email c \<notin> user_email ` set new1" by simp
  then have "\<And>u. u \<in> set new1 \<Longrightarrow> user_email u \<noteq> email c" by (metis imageI)
  then have "filter (\<lambda>u. user_email u = email c) new1 = []"
    by (simp add: filter_empty_conv)
  with empty new(1) split r(1)
  have "filter (\<lambda>u. user_email u = email c) (rows db1) = [r]"
    by (simp add: db1)
  moreover have "\<not> execute_fails db1" using ok by (simp add: db1)
  ultimately have "select_user_by_email db1 (email c) = Inr (Some r)"
    by (simp add: select_user_by_email_def)
  with r(2) show ?thesis by blast
qed

text \<open>
  When the commit went through and only \<open>db.refresh\<close> raises, the handler answers the
  same 500; the rollback finds nothing pending, and the row is in the table.
\<close>

lemma register_user_refresh_failure:
  assumes "select_user_by_email db (email c) = Inr None"
    and "commit (add db (email c, get_password_hash salt (password c))) = (None, db')"
    and "refresh_fails db"
  shows "register_user S now salt c db =
           (Inl (HTTPException 500 ''Registration failed due to a critical database error.'' []),
            db')"
  using assms
  by (auto simp: register_user_def commit_def add_def refresh_def rollback_def Let_def http_defs
           split: if_splits option.splits prod.splits)

lemma map_of_dict_update:
  "map_of (dict_update d k v) = (map_of d)(k \<mapsto> v)"
  by (simp add: dict_update_def update_conv')

lemma map_of_convert_time_claim:
  "map_of (convert_time_claim tc c) k =
     (if k = tc then map_option intdate (map_of c k) else map_of c k)"
  by (auto simp: convert_time_claim_def dict_get_def map_of_dict_update intdate_def
           split: option.splits pyval.splits)

lemma map_of_convert_time_claims:
  "map_of (fold convert_time_claim [''exp'', ''iat'', ''nbf''] c) k =
     (if k \<in> {''exp'', ''iat'', ''nbf''} then map_option intdate (map_of c k) else map_of c k)"
  by (simp add: map_of_convert_time_claim)

lemma no_datetime_value:
  assumes "\<not> list_ex (\<lambda>kv. is_datetime (snd kv)) c" and "map_of c k = Some v"
  shows "intdate v = v"
proof -
  from assms(2) have "(k, v) \<in> set c" by (rule map_of_SomeD)
  with assms(1) have "\<not> is_datetime v" by (auto simp: list_ex_iff)
  then show ?thesis by (cases v) (simp_all add: intdate_def)
qed

text \<open>
  The claims a token carries are the claims handed to \<open>jwt.encode\<close>, each \<open>datetime\<close>
  as its timestamp (a token is only made when none is left outside \<open>exp\<close>, \<open>iat\<close>, \<open>nbf\<close>).
\<close>

lemma jwt_encode_payload:
  assumes "snd (jwt_encode c key alg) = Inr (Compact a payload sg)"
  shows "map_of payload k = map_option intdate (map_of c k)"
proof -
  let ?c' = "fold convert_time_claim [''exp'', ''iat'', ''nbf''] c"
  from assms have payload: "payload = ?c'"
    and clean: "\<not> list_ex (\<lambda>kv. is_datetime (snd kv)) ?c'"
    by (auto simp: jwt_encode_def Let_def split: if_splits)
  show ?thesis
  proof (cases "k \<in> {''exp'', ''iat'', ''nbf''}")
    case True
    then show ?thesis unfolding payload by (simp only: map_of_convert_time_claims if_True)
  next
    case False
    then have eq: "map_of ?c' k = map_of c k"
      by (simp only: map_of_convert_time_claims if_False)
    show ?thesis
    proof (cases "map_of c k")
      case None
      with eq show ?thesis unfolding payload by simp
    next
      case (Some v)
      with eq have "map_of ?c' k = Some v" by simp
      from no_datetime_value [OF clean this] Some eq show ?thesis unfolding payload by simp
    qed
  qed
qed

text \<open>Issuing with the default lifetime, and validating what was issued.\<close>

lemmas encode_defs =
  create_access_token_def create_access_token_literal_def jwt_encode_def
  convert_time_claim_def dict_get_def dict_update_def timedelta_minutes_def timedelta_bool_def

lemma create_access_token_literal_default_ttl:
  assumes "ALGORITHM S \<in> set HMAC_ALGORITHMS"
  shows "create_access_token_literal S now [(''sub'', PyStr e)] None =
     Inr (Compact (ALGORITHM S)
            [(''sub'', PyStr e), (''exp'', PyInt (now + 60 * ACCESS_TOKEN_EXPIRE_MINUTES S))]
            (HMAC (ALGORITHM S) (SECRET_KEY S)
               [(''sub'', PyStr e), (''exp'', PyInt (now + 60 * ACCESS_TOKEN_EXPIRE_MINUTES S))]))"
  using assms by (simp add: encode_defs Let_def)

lemma auth_utils_get_current_user_issued:
  assumes "t \<le> x"
  shows "auth_utils_get_current_user S t
           (Compact (ALGORITHM S) [(''sub'', PyStr e), (''exp'', PyInt x)]
              (HMAC (ALGORITHM S) (SECRET_KEY S) [(''sub'', PyStr e), (''exp'', PyInt x)]))
         = Inr [(''email'', PyStr e)]"
  using assms
  by (simp add: auth_utils_get_current_user_def jwt_decode_def validate_claims_def
        validate_nbf_def validate_exp_def validate_sub_def dict_get_def)

lemma find_by_filter:
  "find P xs = (case filter P xs of [] \<Rightarrow> None | x # _ \<Rightarrow> Some x)"
  by (induction xs) simp_all

text \<open>A commit that went through has stored the row of the object that was added.\<close>

lemma commit_stores_row:
  assumes none: "select_user_by_email db e = Inr None"
    and stored: "commit (add db (e, h)) = (None, db')"
  shows "\<exists>u. select_user_by_email db' e = Inr (Some u) \<and> password_hash u = h"
proof -
  from none have ok: "\<not> execute_fails db"
    and empty: "filter (\<lambda>u. user_email u = e) (rows db) = []"
    by (auto simp: select_user_by_email_def split: if_splits list.splits)
  from stored obtain us where
    fl: "flush (pending db @ [(e, h)]) (rows db) = Some us" and
    db': "db' = db\<lparr>pending := pending db @ [(e, h)]\<rparr>\<lparr>rows := us, pending := []\<rparr>"
    by (auto simp: add_def commit_def split: option.splits if_splits)
  from flush_Some [OF fl] obtain new where
    new: "us = rows db @ new" "map user_email new = map fst (pending db) @ [e]"
         "map password_hash new = map snd (pending db) @ [h]"
         "distinct (map fst (pending db) @ [e])"
    by auto
  from new(2) obtain new1 r where split: "new = new1 @ [r]"
    by (cases new rule: rev_cases) auto
  with new(2,3) have r: "user_email r = e" "password_hash r = h"
    and new1: "map user_email new1 = map fst (pending db)"
    by auto
  from new(4) have "e \<notin> set (map fst (pending db))" by simp
  with new1 have "e \<notin> set (map user_email new1)" by simp
  then have "e \<notin> user_email ` set new1" by simp
  then have "\<And>u. u \<in> set new1 \<Longrightarrow> user_email u \<noteq> e" by (metis imageI)
  then have "filter (\<lambda>u. user_email u = e) new1 = []"
    by (simp add: filter_empty_conv)
  with empty new(1) split r(1)
  have "filter (\<lambda>u. user_email u = e) (rows db') = [r]"
    by (simp add: db')
  moreover have "\<not> execute_fails db'" using ok by (simp add: db')
  ultimately have "select_user_by_email db' e = Inr (Some r)"
    by (simp add: select_user_by_email_def)
  with r(2) show ?thesis by blast
qed

section \<open>The claims\<close>

subsection \<open>C1: the errors of get_current_user\<close>

text \<open>
  C1, as the code has it. Whenever \<open>get_current_user\<close> of \<open>routers/auth.py\<close> fails and
  the user lookup itself worked (the query met a database that answers, whose rows obey
  the unique index on \<open>email\<close>), the exception is an HTTP 401 with the header
  \<open>WWW-Authenticate: Bearer\<close>. Its message is
  \<open>Authentication failed. Token is invalid or expired.\<close> when the token validation of
  \<open>auth_utils.py\<close> rejected the token (malformed token, signature mismatch, expired
  token, missing \<open>sub\<close>), and \<open>Could not validate credentials\<close> when the token was
  valid and the user it names has no row.
\<close>

theorem get_current_user_failure_messages:
  assumes "get_current_user S now tok db = Inl e"
    and "\<not> execute_fails db"
    and "distinct (map user_email (rows db))"
  shows "status_code e = 401 \<and> headers e = [(''WWW-Authenticate'', ''Bearer'')] \<and>
         detail e =
           (if isl (auth_utils_get_current_user S now tok)
            then ''Authentication failed. Token is invalid or expired.''
            else ''Could not validate credentials'')"
proof (cases "auth_utils_get_current_user S now tok")
  case (Inl x)
  from get_current_user_after_utils_failure [OF Inl] assms(1)
  have "e = credentials_exception_utils" by simp
  with Inl show ?thesis
    by (simp add: credentials_exception_utils_def HTTP_401_UNAUTHORIZED_def)
next
  case (Inr d)
  from auth_utils_get_current_user_Inr [OF Inr] obtain s where d: "d = [(''email'', PyStr s)]" ..
  from select_user_by_email_unique [OF assms(2,3), of s]
  have "e = credentials_exception"
    using assms(1) get_current_user_after_utils_success [of S now tok s db] Inr d
    by auto
  with Inr show ?thesis
    by (simp add: credentials_exception_def HTTP_401_UNAUTHORIZED_def)
qed

text \<open>
  The theorem at a token that is signed with the configured key and not expired, for a
  user that has no row: the call fails, and the message is the second one.
\<close>

theorem get_current_user_failure_messages_witness:
  "get_current_user auth_settings_default 0
     (Compact ''HS256'' [(''sub'', PyStr ''a@b.com''), (''exp'', PyInt 100)]
        (HMAC ''HS256'' ''please-change-this-to-a-long-random-string-in-next-sprint''
           [(''sub'', PyStr ''a@b.com''), (''exp'', PyInt 100)]))
     \<lparr> rows = [], pending = [], execute_fails = False, commit_fails = False,
       refresh_fails = False \<rparr>
    = Inl (HTTPException 401 ''Could not validate credentials''
             [(''WWW-Authenticate'', ''Bearer'')])
   \<and> status_code (HTTPException 401 ''Could not validate credentials''
                    [(''WWW-Authenticate'', ''Bearer'')]) = 401
   \<and> \<not> isl (auth_utils_get_current_user auth_settings_default 0
              (Compact ''HS256'' [(''sub'', PyStr ''a@b.com''), (''exp'', PyInt 100)]
                 (HMAC ''HS256'' ''please-change-this-to-a-long-random-string-in-next-sprint''
                    [(''sub'', PyStr ''a@b.com''), (''exp'', PyInt 100)])))"
  using get_current_user_failure_messages [of auth_settings_default 0
     "Compact ''HS256'' [(''sub'', PyStr ''a@b.com''), (''exp'', PyInt 100)]
        (HMAC ''HS256'' ''please-change-this-to-a-long-random-string-in-next-sprint''
           [(''sub'', PyStr ''a@b.com''), (''exp'', PyInt 100)])"
     "\<lparr> rows = [], pending = [], execute_fails = False, commit_fails = False,
        refresh_fails = False \<rparr>"
     "HTTPException 401 ''Could not validate credentials'' [(''WWW-Authenticate'', ''Bearer'')]"]
  by (simp add: token_defs http_defs session_defs get_current_user_def
        credentials_exception_def)

text \<open>
  C1 as stated fails: a malformed token and a valid token of a user without a row are
  both answered with a 401, but not with the same message.
\<close>

theorem get_current_user_messages_differ:
  "get_current_user auth_settings_default 0 (Malformed ''not-a-token'')
     \<lparr> rows = [], pending = [], execute_fails = False, commit_fails = False,
       refresh_fails = False \<rparr>
    = Inl (HTTPException 401 ''Authentication failed. Token is invalid or expired.''
             [(''WWW-Authenticate'', ''Bearer'')])
   \<and> get_current_user auth_settings_default 0
     (Compact ''HS256'' [(''sub'', PyStr ''a@b.com''), (''exp'', PyInt 100)]
        (HMAC ''HS256'' ''please-change-this-to-a-long-random-string-in-next-sprint''
           [(''sub'', PyStr ''a@b.com''), (''exp'', PyInt 100)]))
     \<lparr> rows = [], pending = [], execute_fails = False, commit_fails = False,
       refresh_fails = False \<rparr>
    = Inl (HTTPException 401 ''Could not validate credentials''
             [(''WWW-Authenticate'', ''Bearer'')])
   \<and> ''Authentication failed. Token is invalid or expired.''
       \<noteq> ''Could not validate credentials''"
  by (simp add: token_defs http_defs session_defs get_current_user_def
        credentials_exception_def)

subsection \<open>C2: the two failures of login\<close>

text \<open>
  C2. A login for an email that has no row, and a login for an email that has a row
  whose stored hash the password does not verify against, fail with the same
  exception: HTTP 401, the message \<open>Incorrect email or password\<close> and the same header,
  whatever the two requests, sessions, settings and times are.
\<close>

theorem login_failures_indistinguishable:
  assumes absent: "select_user_by_email db (email c) = Inr None"
    and present: "select_user_by_email db' (email c') = Inr (Some u)"
    and mismatch: "verify_password (password c') (password_hash u) = Inr False"
  shows "login_for_access_token S now c db =
           Inl (HTTPException 401 ''Incorrect email or password''
                  [(''WWW-Authenticate'', ''Bearer'')])
         \<and> login_for_access_token S' now' c' db' = login_for_access_token S now c db"
  using assms by (simp add: login_for_access_token_def http_defs)

theorem login_failures_indistinguishable_witness:
  "login_for_access_token auth_settings_default 0
     \<lparr> email = ''nosuchuser@x.com'', password = ''anything'' \<rparr>
     \<lparr> rows = [\<lparr> user_id = 1, user_email = ''a@b.com'',
                 password_hash = Argon2 ''s'' ''pw'' \<rparr>],
       pending = [], execute_fails = False, commit_fails = False, refresh_fails = False \<rparr>
   = Inl (HTTPException 401 ''Incorrect email or password'' [(''WWW-Authenticate'', ''Bearer'')])
   \<and> login_for_access_token auth_settings_default 0
     \<lparr> email = ''a@b.com'', password = ''wrong'' \<rparr>
     \<lparr> rows = [\<lparr> user_id = 1, user_email = ''a@b.com'',
                 password_hash = Argon2 ''s'' ''pw'' \<rparr>],
       pending = [], execute_fails = False, commit_fails = False, refresh_fails = False \<rparr>
   = Inl (HTTPException 401 ''Incorrect email or password'' [(''WWW-Authenticate'', ''Bearer'')])"
  using login_failures_indistinguishable [of
     "\<lparr> rows = [\<lparr> user_id = 1, user_email = ''a@b.com'',
                  password_hash = Argon2 ''s'' ''pw'' \<rparr>],
        pending = [], execute_fails = False, commit_fails = False, refresh_fails = False \<rparr>"
     "\<lparr> email = ''nosuchuser@x.com'', password = ''anything'' \<rparr>"
     "\<lparr> rows = [\<lparr> user_id = 1, user_email = ''a@b.com'',
                  password_hash = Argon2 ''s'' ''pw'' \<rparr>],
        pending = [], execute_fails = False, commit_fails = False, refresh_fails = False \<rparr>"
     "\<lparr> email = ''a@b.com'', password = ''wrong'' \<rparr>"
     "\<lparr> user_id = 1, user_email = ''a@b.com'', password_hash = Argon2 ''s'' ''pw'' \<rparr>"
     auth_settings_default 0 auth_settings_default 0]
  by (simp add: session_defs verify_password_def pwd_context_verify_def)

subsection \<open>C3: a token issued with a time to live of zero\<close>

text \<open>
  C3 at the input \<open>expires_delta = timedelta(0)\<close>. Python takes a zero \<open>timedelta\<close>
  for false, so \<open>if expires_delta:\<close> sends it the way of \<open>None\<close>: the token gets the
  default lifetime of 10080 minutes, and the token validation accepts it at every time
  up to 604800 seconds after it was issued.
\<close>

theorem zero_ttl_token_accepted:
  assumes "t \<le> now + 604800"
  shows "\<exists>tok. create_access_token_literal auth_settings_default now
                  [(''sub'', PyStr e)] (Some 0) = Inr tok
               \<and> auth_utils_get_current_user auth_settings_default t tok
                   = Inr [(''email'', PyStr e)]"
  using assms
  by (simp add: create_access_token_literal_sub)
     (simp add: token_defs)

theorem zero_ttl_token_accepted_witness:
  "(4600::int) \<le> 1000 + 604800
   \<and> (\<exists>tok. create_access_token_literal auth_settings_default 1000
                  [(''sub'', PyStr ''a@b.com'')] (Some 0) = Inr tok
               \<and> auth_utils_get_current_user auth_settings_default 4600 tok
                   = Inr [(''email'', PyStr ''a@b.com'')])"
  using zero_ttl_token_accepted [of 4600 1000 "''a@b.com''"] by simp

subsection \<open>C7: a token without a subject\<close>

text \<open>
  C7. A token whose claims hold no \<open>sub\<close> is rejected by the token validation, and so
  by \<open>get_current_user\<close> of the router, with the HTTP 401 of \<open>auth_utils.py\<close>; this
  holds in particular when its signature verifies and its expiration lies ahead, which
  is the case the witness runs.
\<close>

theorem token_without_sub_rejected:
  assumes "map_of payload ''sub'' = None"
  shows "auth_utils_get_current_user S now (Compact alg payload signature)
           = Inl (HTTPException 401 ''Authentication failed. Token is invalid or expired.''
                    [(''WWW-Authenticate'', ''Bearer'')])
         \<and> get_current_user S now (Compact alg payload signature) db
           = Inl (HTTPException 401 ''Authentication failed. Token is invalid or expired.''
                    [(''WWW-Authenticate'', ''Bearer'')])"
proof -
  have "auth_utils_get_current_user S now (Compact alg payload signature)
          = Inl credentials_exception_utils"
    using assms
    by (auto simp: auth_utils_get_current_user_def jwt_decode_def dict_get_def Let_def
             split: sum.splits option.splits)
  then show ?thesis
    using get_current_user_after_utils_failure [of S now "Compact alg payload signature"]
    by (simp add: credentials_exception_utils_def http_defs)
qed

theorem token_without_sub_rejected_witness:
  "map_of [(''exp'', PyInt 100)] ''sub'' = None
   \<and> jwt_decode (Compact ''HS256'' [(''exp'', PyInt 100)]
        (HMAC ''HS256'' (SECRET_KEY auth_settings_default) [(''exp'', PyInt 100)]))
        (SECRET_KEY auth_settings_default) [ALGORITHM auth_settings_default] 0
       = Inr [(''exp'', PyInt 100)]
   \<and> auth_utils_get_current_user auth_settings_default 0
        (Compact ''HS256'' [(''exp'', PyInt 100)]
           (HMAC ''HS256'' (SECRET_KEY auth_settings_default) [(''exp'', PyInt 100)]))
       = Inl (HTTPException 401 ''Authentication failed. Token is invalid or expired.''
                [(''WWW-Authenticate'', ''Bearer'')])"
  using token_without_sub_rejected [of "[(''exp'', PyInt 100)]" auth_settings_default 0
     "''HS256''" "HMAC ''HS256'' (SECRET_KEY auth_settings_default) [(''exp'', PyInt 100)]"]
  by (simp add: jwt_decode_def validate_claims_def validate_nbf_def validate_exp_def
        validate_sub_def auth_settings_default_def)

subsection \<open>C10: the path of an upload\<close>

text \<open>
  C10 on the code. The dependency hands \<open>upload_file\<close> the dictionary
  \<open>{'email': ..., 'id': ...}\<close>, and \<open>upload_file\<close> reads \<open>current_user.id\<close> and
  \<open>current_user.email\<close>: every request that passes authentication ends in
  \<open>AttributeError\<close> before any path is built, whatever the file is. The second
  conjunct runs one such request, for a registered user with a valid token.
\<close>

theorem upload_file_request_raises:
  "upload_file_request S now tok db file write_fails =
     (case get_current_user S now tok db of
        Inl e \<Rightarrow> Inl e
      | Inr identity \<Rightarrow> Inl AttributeError)
   \<and> get_current_user auth_settings_default 0
       (Compact ''HS256'' [(''sub'', PyStr ''a@b.com''), (''exp'', PyInt 100)]
          (HMAC ''HS256'' ''please-change-this-to-a-long-random-string-in-next-sprint''
             [(''sub'', PyStr ''a@b.com''), (''exp'', PyInt 100)]))
       \<lparr> rows = [\<lparr> user_id = 1, user_email = ''a@b.com'',
                   password_hash = Argon2 ''s'' ''pw'' \<rparr>],
         pending = [], execute_fails = False, commit_fails = False, refresh_fails = False \<rparr>
     = Inr [(''email'', PyStr ''a@b.com''), (''id'', PyInt 1)]
   \<and> upload_file_request auth_settings_default 0
       (Compact ''HS256'' [(''sub'', PyStr ''a@b.com''), (''exp'', PyInt 100)]
          (HMAC ''HS256'' ''please-change-this-to-a-long-random-string-in-next-sprint''
             [(''sub'', PyStr ''a@b.com''), (''exp'', PyInt 100)]))
       \<lparr> rows = [\<lparr> user_id = 1, user_email = ''a@b.com'',
                   password_hash = Argon2 ''s'' ''pw'' \<rparr>],
         pending = [], execute_fails = False, commit_fails = False, refresh_fails = False \<rparr>
       \<lparr> filename = Some ''report.txt'', content_type = Some ''text/plain'' \<rparr> False
     = Inl AttributeError"
proof -
  have general: "upload_file_request S now tok db upload write_fails =
     (case get_current_user S now tok db of
        Inl e \<Rightarrow> Inl e
      | Inr identity \<Rightarrow> Inl AttributeError)" for S now tok db upload write_fails
    by (simp add: upload_file_request_def upload_file_def attr_id_def attr_email_def
             split: sum.splits)
  have identity: "get_current_user auth_settings_default 0
       (Compact ''HS256'' [(''sub'', PyStr ''a@b.com''), (''exp'', PyInt 100)]
          (HMAC ''HS256'' ''please-change-this-to-a-long-random-string-in-next-sprint''
             [(''sub'', PyStr ''a@b.com''), (''exp'', PyInt 100)]))
       \<lparr> rows = [\<lparr> user_id = 1, user_email = ''a@b.com'',
                   password_hash = Argon2 ''s'' ''pw'' \<rparr>],
         pending = [], execute_fails = False, commit_fails = False, refresh_fails = False \<rparr>
     = Inr [(''email'', PyStr ''a@b.com''), (''id'', PyInt 1)]"
    by (simp add: token_defs http_defs session_defs get_current_user_def)
  show ?thesis
    using identity by (simp add: general)
qed

subsection \<open>C5: registering an email twice\<close>

text \<open>
  C5. After a registration that succeeded for an email, every further registration with
  that email, whatever its password, salt, time and settings, fails with HTTP 400
  \<open>Email already registered\<close> and returns the session as it found it; the row of the
  email still holds the hash the first registration stored. The same failure, with the
  session unchanged, meets a registration on any session in which the lookup finds a
  row for the email.
\<close>

theorem register_user_duplicate:
  assumes first: "register_user S now salt c db = (Inr tok, db1)"
    and same: "email c' = email c"
  shows "register_user S' now' salt' c' db1 =
           (Inl (HTTPException 400 ''Email already registered'' []), db1)
         \<and> (\<exists>u. select_user_by_email db1 (email c) = Inr (Some u)
                 \<and> password_hash u = get_password_hash salt (password c))
         \<and> (\<forall>db2 u. select_user_by_email db2 (email c') = Inr (Some u) \<longrightarrow>
                register_user S' now' salt' c' db2 =
                  (Inl (HTTPException 400 ''Email already registered'' []), db2))"
proof -
  from register_user_success [OF first] obtain u where
    u: "select_user_by_email db1 (email c) = Inr (Some u)"
       "password_hash u = get_password_hash salt (password c)"
    by blast
  from u(1) same have "select_user_by_email db1 (email c') = Inr (Some u)" by simp
  from register_user_existing [OF this] u
  have "register_user S' now' salt' c' db1 =
           (Inl (HTTPException 400 ''Email already registered'' []), db1)
         \<and> (\<exists>u. select_user_by_email db1 (email c) = Inr (Some u)
                 \<and> password_hash u = get_password_hash salt (password c))"
    by blast
  then show ?thesis
    using register_user_existing by blast
qed

theorem register_user_duplicate_witness:
  "register_user auth_settings_default 1000 ''salt1''
     \<lparr> email = ''a@b.com'', password = ''pw'' \<rparr>
     \<lparr> rows = [], pending = [], execute_fails = False, commit_fails = False,
       refresh_fails = False \<rparr>
   = (Inr \<lparr> access_token =
              Compact ''HS256'' [(''sub'', PyStr ''a@b.com''), (''exp'', PyInt 605800)]
                (HMAC ''HS256'' ''please-change-this-to-a-long-random-string-in-next-sprint''
                   [(''sub'', PyStr ''a@b.com''), (''exp'', PyInt 605800)]),
            token_type = ''bearer'' \<rparr>,
      \<lparr> rows = [\<lparr> user_id = 1, user_email = ''a@b.com'',
                  password_hash = Argon2 ''salt1'' ''pw'' \<rparr>],
        pending = [], execute_fails = False, commit_fails = False, refresh_fails = False \<rparr>)
   \<and> register_user auth_settings_default 1001 ''salt2''
       \<lparr> email = ''a@b.com'', password = ''pw2'' \<rparr>
       \<lparr> rows = [\<lparr> user_id = 1, user_email = ''a@b.com'',
                   password_hash = Argon2 ''salt1'' ''pw'' \<rparr>],
         pending = [], execute_fails = False, commit_fails = False, refresh_fails = False \<rparr>
     = (Inl (HTTPException 400 ''Email already registered'' []),
        \<lparr> rows = [\<lparr> user_id = 1, user_email = ''a@b.com'',
                    password_hash = Argon2 ''salt1'' ''pw'' \<rparr>],
          pending = [], execute_fails = False, commit_fails = False, refresh_fails = False \<rparr>)
   \<and> select_user_by_email
       \<lparr> rows = [\<lparr> user_id = 1, user_email = ''a@b.com'',
                   password_hash = Argon2 ''salt1'' ''pw'' \<rparr>],
         pending = [], execute_fails = False, commit_fails = False, refresh_fails = False \<rparr>
       ''a@b.com''
     = Inr (Some \<lparr> user_id = 1, user_email = ''a@b.com'',
                   password_hash = Argon2 ''salt1'' ''pw'' \<rparr>)"
proof -
  have first: "register_user auth_settings_default 1000 ''salt1''
     \<lparr> email = ''a@b.com'', password = ''pw'' \<rparr>
     \<lparr> rows = [], pending = [], execute_fails = False, commit_fails = False,
       refresh_fails = False \<rparr>
   = (Inr \<lparr> access_token =
              Compact ''HS256'' [(''sub'', PyStr ''a@b.com''), (''exp'', PyInt 605800)]
                (HMAC ''HS256'' ''please-change-this-to-a-long-random-string-in-next-sprint''
                   [(''sub'', PyStr ''a@b.com''), (''exp'', PyInt 605800)]),
            token_type = ''bearer'' \<rparr>,
      \<lparr> rows = [\<lparr> user_id = 1, user_email = ''a@b.com'',
                  password_hash = Argon2 ''salt1'' ''pw'' \<rparr>],
        pending = [], execute_fails = False, commit_fails = False, refresh_fails = False \<rparr>)"
    by (simp add: register_user_def session_defs create_access_token_literal_sub
          get_password_hash_def pwd_context_hash_def)
  from register_user_duplicate [OF first, of "\<lparr> email = ''a@b.com'', password = ''pw2'' \<rparr>"
         auth_settings_default 1001 "''salt2''"]
  show ?thesis
    using first by (simp add: session_defs get_password_hash_def pwd_context_hash_def)
qed

subsection \<open>C8: a registration whose persistence step fails\<close>

text \<open>
  C8 on the code. The \<open>try\<close> of the persistence step runs \<open>db.add\<close>, \<open>db.commit\<close>
  and \<open>db.refresh\<close> under one handler. When the commit goes through and the refresh
  raises, the handler rolls back, which undoes nothing, and answers HTTP 500
  \<open>Registration failed due to a critical database error.\<close>: the registration fails,
  and the table is not what it was before the call, for the lookup that found no row
  for the email now finds the new user with the hash of the password.
\<close>

theorem register_user_refresh_failure_stores_row:
  assumes absent: "select_user_by_email db (email c) = Inr None"
    and committed: "commit (add db (email c, get_password_hash salt (password c))) = (None, db')"
    and failure: "refresh_fails db"
  shows "register_user S now salt c db =
           (Inl (HTTPException 500 ''Registration failed due to a critical database error.'' []),
            db')
         \<and> (\<exists>u. select_user_by_email db' (email c) = Inr (Some u)
                 \<and> password_hash u = get_password_hash salt (password c))
         \<and> rows db' \<noteq> rows db"
proof -
  have result: "register_user S now salt c db =
           (Inl (HTTPException 500 ''Registration failed due to a critical database error.'' []),
            db')"
    by (rule register_user_refresh_failure [OF absent committed failure])
  from commit_stores_row [OF absent committed] obtain u where
    u: "select_user_by_email db' (email c) = Inr (Some u)"
       "password_hash u = get_password_hash salt (password c)"
    by blast
  have "rows db' \<noteq> rows db"
  proof
    assume same: "rows db' = rows db"
    from absent have "filter (\<lambda>u. user_email u = email c) (rows db) = []"
      by (auto simp: select_user_by_email_def split: if_splits list.splits)
    with same have "filter (\<lambda>u. user_email u = email c) (rows db') = []" by simp
    with u(1) show False
      by (auto simp: select_user_by_email_def split: if_splits)
  qed
  with result u show ?thesis by blast
qed

theorem register_user_refresh_failure_stores_row_witness:
  "select_user_by_email
     \<lparr> rows = [], pending = [], execute_fails = False, commit_fails = False,
       refresh_fails = True \<rparr> ''a@b.com'' = Inr None
   \<and> commit (add \<lparr> rows = [], pending = [], execute_fails = False, commit_fails = False,
                    refresh_fails = True \<rparr>
                 (''a@b.com'', get_password_hash ''salt1'' ''pw''))
     = (None,
        \<lparr> rows = [\<lparr> user_id = 1, user_email = ''a@b.com'',
                    password_hash = Argon2 ''salt1'' ''pw'' \<rparr>],
          pending = [], execute_fails = False, commit_fails = False, refresh_fails = True \<rparr>)
   \<and> register_user auth_settings_default 1000 ''salt1''
       \<lparr> email = ''a@b.com'', password = ''pw'' \<rparr>
       \<lparr> rows = [], pending = [], execute_fails = False, commit_fails = False,
         refresh_fails = True \<rparr>
     = (Inl (HTTPException 500 ''Registration failed due to a critical database error.'' []),
        \<lparr> rows = [\<lparr> user_id = 1, user_email = ''a@b.com'',
                    password_hash = Argon2 ''salt1'' ''pw'' \<rparr>],
          pending = [], execute_fails = False, commit_fails = False, refresh_fails = True \<rparr>)"
proof -
  have committed: "commit (add \<lparr> rows = [], pending = [], execute_fails = False,
                    commit_fails = False, refresh_fails = True \<rparr>
                 (''a@b.com'', get_password_hash ''salt1'' ''pw''))
     = (None,
        \<lparr> rows = [\<lparr> user_id = 1, user_email = ''a@b.com'',
                    password_hash = Argon2 ''salt1'' ''pw'' \<rparr>],
          pending = [], execute_fails = False, commit_fails = False, refresh_fails = True \<rparr>)"
    by (simp add: session_defs get_password_hash_def pwd_context_hash_def)
  from register_user_refresh_failure_stores_row [of
     "\<lparr> rows = [], pending = [], execute_fails = False, commit_fails = False,
        refresh_fails = True \<rparr>"
     "\<lparr> email = ''a@b.com'', password = ''pw'' \<rparr>" "''salt1''" _ auth_settings_default 1000]
  show ?thesis
    using committed by (simp add: session_defs)
qed

text \<open>
  When the commit itself raises, the same 500 is answered, the rows of the table are
  the rows before the call, and after the rollback no pending object is left.
\<close>

lemma register_user_commit_failure:
  assumes absent: "select_user_by_email db (email c) = Inr None"
    and failure: "fst (commit (add db (email c, get_password_hash salt (password c)))) = Some x"
  shows "register_user S now salt c db =
           (Inl (HTTPException 500 ''Registration failed due to a critical database error.'' []),
            db\<lparr>pending := []\<rparr>)
         \<and> rows (snd (register_user S now salt c db)) = rows db
         \<and> pending (snd (register_user S now salt c db)) = []"
  using assms
  by (auto simp: register_user_def commit_def add_def rollback_def Let_def http_defs
           split: if_splits option.splits prod.splits)

lemma register_user_commit_failure_example:
  "select_user_by_email
     \<lparr> rows = [], pending = [], execute_fails = False, commit_fails = True,
       refresh_fails = False \<rparr> ''a@b.com'' = Inr None
   \<and> fst (commit (add \<lparr> rows = [], pending = [], execute_fails = False, commit_fails = True,
                         refresh_fails = False \<rparr>
                      (''a@b.com'', get_password_hash ''salt1'' ''pw''))) = Some SQLAlchemyError
   \<and> register_user auth_settings_default 1000 ''salt1''
       \<lparr> email = ''a@b.com'', password = ''pw'' \<rparr>
       \<lparr> rows = [], pending = [], execute_fails = False, commit_fails = True,
         refresh_fails = False \<rparr>
     = (Inl (HTTPException 500 ''Registration failed due to a critical database error.'' []),
        \<lparr> rows = [], pending = [], execute_fails = False, commit_fails = True,
          refresh_fails = False \<rparr>)"
  using register_user_commit_failure [of
     "\<lparr> rows = [], pending = [], execute_fails = False, commit_fails = True,
        refresh_fails = False \<rparr>"
     "\<lparr> email = ''a@b.com'', password = ''pw'' \<rparr>" "''salt1''" SQLAlchemyError
     auth_settings_default 1000]
  by (simp add: session_defs)

subsection \<open>C9: create_access_token and the dictionary of its caller\<close>

text \<open>
  C9. For a reference \<open>data\<close> into the store, any time and any \<open>expires_delta\<close>:
  after \<open>create_access_token\<close> the dictionary \<open>data\<close> refers to is what it was, as is
  every other object that existed before the call (the function writes only to its
  copy), whether a token was issued or not. When a token is issued, its claims are the
  entries of the caller's dictionary with \<open>exp\<close> set to the computed expiration; an
  \<open>exp\<close> the caller supplied is replaced, and \<open>intdate\<close> changes an entry only if it
  is a \<open>datetime\<close> under \<open>iat\<close> or \<open>nbf\<close>, which is signed as its timestamp.
\<close>

theorem create_access_token_frame:
  assumes "data < length h"
  shows "fst (create_access_token S now h data ttl) ! data = h ! data
       \<and> take (length h) (fst (create_access_token S now h data ttl)) = h
       \<and> (\<forall>alg payload sg.
            snd (create_access_token S now h data ttl) = Inr (Compact alg payload sg) \<longrightarrow>
            map_of payload =
              (\<lambda>k. map_option intdate (map_of (h ! data) k))
                (''exp'' \<mapsto> PyInt
                   (case ttl of
                      Some d \<Rightarrow> if d \<noteq> 0 then now + d
                                else now + 60 * ACCESS_TOKEN_EXPIRE_MINUTES S
                    | None \<Rightarrow> now + 60 * ACCESS_TOKEN_EXPIRE_MINUTES S)))"
proof -
  let ?expire = "case ttl of
                   Some d \<Rightarrow> if d \<noteq> 0 then now + d
                             else now + 60 * ACCESS_TOKEN_EXPIRE_MINUTES S
                 | None \<Rightarrow> now + 60 * ACCESS_TOKEN_EXPIRE_MINUTES S"
  let ?c = "dict_update (h ! data) ''exp'' (PyDatetime ?expire)"
  let ?enc = "jwt_encode ?c (SECRET_KEY S) (ALGORITHM S)"
  have expire: "(case ttl of
               Some d \<Rightarrow>
                 if timedelta_bool d then now + d
                 else now + timedelta_minutes (ACCESS_TOKEN_EXPIRE_MINUTES S)
             | None \<Rightarrow> now + timedelta_minutes (ACCESS_TOKEN_EXPIRE_MINUTES S)) = ?expire"
    by (simp add: timedelta_bool_def timedelta_minutes_def split: option.splits)
  have store: "fst (create_access_token S now h data ttl) = h @ [fst ?enc]"
    by (simp add: create_access_token_def Let_def expire split: prod.splits sum.splits)
  have outcome: "snd (create_access_token S now h data ttl) = Inr tok \<Longrightarrow> snd ?enc = Inr tok"
    for tok
    by (auto simp: create_access_token_def Let_def expire split: prod.splits sum.splits)
  have frame: "fst (create_access_token S now h data ttl) ! data = h ! data"
    using assms by (simp add: store nth_append)
  have rest: "take (length h) (fst (create_access_token S now h data ttl)) = h"
    by (simp add: store)
  have claims: "map_of payload =
      (\<lambda>k. map_option intdate (map_of (h ! data) k))(''exp'' \<mapsto> PyInt ?expire)"
    if "snd (create_access_token S now h data ttl) = Inr (Compact alg payload sg)"
    for alg payload sg
  proof
    fix k
    from jwt_encode_payload [OF outcome [OF that], of k]
    show "map_of payload k =
      ((\<lambda>k. map_option intdate (map_of (h ! data) k))(''exp'' \<mapsto> PyInt ?expire)) k"
      by (simp add: map_of_dict_update intdate_def)
  qed
  from frame rest claims show ?thesis by blast
qed

theorem create_access_token_frame_witness:
  "(0::nat) < length [[(''sub'', PyStr ''a@b.com''), (''role'', PyStr ''user'')]]
   \<and> create_access_token auth_settings_default 1000
        [[(''sub'', PyStr ''a@b.com''), (''role'', PyStr ''user'')]] 0 (Some 30)
     = ([[(''sub'', PyStr ''a@b.com''), (''role'', PyStr ''user'')],
         [(''sub'', PyStr ''a@b.com''), (''role'', PyStr ''user''), (''exp'', PyInt 1030)]],
        Inr (Compact ''HS256''
               [(''sub'', PyStr ''a@b.com''), (''role'', PyStr ''user''), (''exp'', PyInt 1030)]
               (HMAC ''HS256'' ''please-change-this-to-a-long-random-string-in-next-sprint''
                  [(''sub'', PyStr ''a@b.com''), (''role'', PyStr ''user''),
                   (''exp'', PyInt 1030)])))
   \<and> map_of [(''sub'', PyStr ''a@b.com''), (''role'', PyStr ''user''), (''exp'', PyInt 1030)]
     = (\<lambda>k. map_option intdate
               (map_of [(''sub'', PyStr ''a@b.com''), (''role'', PyStr ''user'')] k))
         (''exp'' \<mapsto> PyInt 1030)"
proof -
  have run: "create_access_token auth_settings_default 1000
        [[(''sub'', PyStr ''a@b.com''), (''role'', PyStr ''user'')]] 0 (Some 30)
     = ([[(''sub'', PyStr ''a@b.com''), (''role'', PyStr ''user'')],
         [(''sub'', PyStr ''a@b.com''), (''role'', PyStr ''user''), (''exp'', PyInt 1030)]],
        Inr (Compact ''HS256''
               [(''sub'', PyStr ''a@b.com''), (''role'', PyStr ''user''), (''exp'', PyInt 1030)]
               (HMAC ''HS256'' ''please-change-this-to-a-long-random-string-in-next-sprint''
                  [(''sub'', PyStr ''a@b.com''), (''role'', PyStr ''user''),
                   (''exp'', PyInt 1030)])))"
    by (simp add: token_defs Let_def)
  from create_access_token_frame [of 0 "[[(''sub'', PyStr ''a@b.com''), (''role'', PyStr ''user'')]]"
         auth_settings_default 1000 "Some 30"]
  show ?thesis
    using run by simp
qed

subsection \<open>C4: resolving an issued token\<close>

text \<open>
  C4. Take the token the routers issue for an email \<open>e\<close> (\<open>sub = e\<close>, default lifetime),
  under settings whose algorithm can sign, and resolve it before it expires against a
  database that answers and obeys the unique index on \<open>email\<close>. If a user with email
  \<open>e\<close> has a row, \<open>get_current_user\<close> returns \<open>{'email': e, 'id': id}\<close> with the key
  of that row; if none has, it fails with the HTTP 401 \<open>Could not validate credentials\<close>.
\<close>

theorem resolve_issued_token:
  assumes alg: "ALGORITHM S \<in> set HMAC_ALGORITHMS"
    and valid: "t \<le> now + 60 * ACCESS_TOKEN_EXPIRE_MINUTES S"
    and answers: "\<not> execute_fails db"
    and unique: "distinct (map user_email (rows db))"
  shows "\<exists>tok. create_access_token_literal S now [(''sub'', PyStr e)] None = Inr tok
             \<and> get_current_user S t tok db =
                 (case find (\<lambda>u. user_email u = e) (rows db) of
                    Some u \<Rightarrow> Inr [(''email'', PyStr e), (''id'', PyInt (user_id u))]
                  | None \<Rightarrow>
                      Inl (HTTPException 401 ''Could not validate credentials''
                             [(''WWW-Authenticate'', ''Bearer'')]))"
proof -
  let ?x = "now + 60 * ACCESS_TOKEN_EXPIRE_MINUTES S"
  let ?tok = "Compact (ALGORITHM S) [(''sub'', PyStr e), (''exp'', PyInt ?x)]
                (HMAC (ALGORITHM S) (SECRET_KEY S) [(''sub'', PyStr e), (''exp'', PyInt ?x)])"
  have issued: "create_access_token_literal S now [(''sub'', PyStr e)] None = Inr ?tok"
    by (rule create_access_token_literal_default_ttl [OF alg])
  have validated: "auth_utils_get_current_user S t ?tok = Inr [(''email'', PyStr e)]"
    by (rule auth_utils_get_current_user_issued [OF valid])
  have lookup: "select_user_by_email db e =
      Inr (find (\<lambda>u. user_email u = e) (rows db))"
    using filter_unique_key [OF unique, of e] answers
    by (auto simp: select_user_by_email_def find_by_filter)
  have "get_current_user S t ?tok db =
          (case find (\<lambda>u. user_email u = e) (rows db) of
             Some u \<Rightarrow> Inr [(''email'', PyStr e), (''id'', PyInt (user_id u))]
           | None \<Rightarrow>
               Inl (HTTPException 401 ''Could not validate credentials''
                      [(''WWW-Authenticate'', ''Bearer'')]))"
  proof (cases "find (\<lambda>u. user_email u = e) (rows db)")
    case None
    with lookup show ?thesis
      by (simp add: get_current_user_after_utils_success [OF validated]
            credentials_exception_def http_defs)
  next
    case (Some u)
    then have "user_email u = e" by (auto simp: find_Some_iff)
    with Some lookup show ?thesis
      by (simp add: get_current_user_after_utils_success [OF validated])
  qed
  with issued show ?thesis by blast
qed

theorem resolve_issued_token_witness:
  "ALGORITHM auth_settings_default \<in> set HMAC_ALGORITHMS
   \<and> (4600::int) \<le> 1000 + 60 * ACCESS_TOKEN_EXPIRE_MINUTES auth_settings_default
   \<and> (\<exists>tok. create_access_token_literal auth_settings_default 1000
                [(''sub'', PyStr ''a@b.com'')] None = Inr tok
         \<and> get_current_user auth_settings_default 4600 tok
             \<lparr> rows = [\<lparr> user_id = 7, user_email = ''a@b.com'',
                         password_hash = Argon2 ''s'' ''pw'' \<rparr>],
               pending = [], execute_fails = False, commit_fails = False,
               refresh_fails = False \<rparr>
           = Inr [(''email'', PyStr ''a@b.com''), (''id'', PyInt 7)])
   \<and> (\<exists>tok. create_access_token_literal auth_settings_default 1000
                [(''sub'', PyStr ''a@b.com'')] None = Inr tok
         \<and> get_current_user auth_settings_default 4600 tok
             \<lparr> rows = [], pending = [], execute_fails = False, commit_fails = False,
               refresh_fails = False \<rparr>
           = Inl (HTTPException 401 ''Could not validate credentials''
                    [(''WWW-Authenticate'', ''Bearer'')]))"
  using resolve_issued_token [of auth_settings_default 4600 1000
          "\<lparr> rows = [\<lparr> user_id = 7, user_email = ''a@b.com'',
                       password_hash = Argon2 ''s'' ''pw'' \<rparr>],
             pending = [], execute_fails = False, commit_fails = False,
             refresh_fails = False \<rparr>" "''a@b.com''"]
        resolve_issued_token [of auth_settings_default 4600 1000
          "\<lparr> rows = [], pending = [], execute_fails = False, commit_fails = False,
             refresh_fails = False \<rparr>" "''a@b.com''"]
  by (simp add: auth_settings_default_def HMAC_ALGORITHMS_def)

end
